theory Spec2Isabelle
  imports Complex_Main
begin

section \<open>Data model\<close>

text \<open>
  JavaScript strings are sequences of UTF-16 code units. Every string literal of the
  sources lies in the Basic Multilingual Plane, so one list element is one character.
  \<open>ascii\<close> embeds a literal that is plain ASCII.
\<close>

type_synonym jsstring = "nat list"

definition ascii :: "string \<Rightarrow> jsstring" where
  "ascii s = map of_char s"

text \<open>
  The type \<open>Config\<close> is declared by the inference library. The record has the fields this
  repository reads and writes; the enumerations list the values the settings panel offers
  (\<open>ConfigPanel.tsx\<close>). \<open>quality\<close> is a JavaScript number; no arithmetic of the modelled
  code touches it, the literal \<open>0.8\<close> is the decimal fraction.
\<close>

datatype Device = Cpu | Gpu

datatype Model = Isnet | Isnet_fp16 | Isnet_quint8

datatype Format = Image_png | Image_jpeg | Image_webp

datatype OutputType = Foreground | Background | Mask

record Output =
  format :: Format
  quality :: real
  type :: OutputType

record Config =
  debug :: bool
  device :: Device
  model :: Model
  "output" :: Output

text \<open>The object literal \<open>{model, debug, device}\<close> handed to \<open>preload\<close>.\<close>

type_synonym PreloadArgs = "Model \<times> bool \<times> Device"

text \<open>The browser's \<open>File\<close>: the properties the sources read.\<close>

datatype File = File (file_name: jsstring) (file_type: jsstring) (file_size: nat)

text \<open>
  A thrown value is either a value thrown by the inference library (type \<open>'e\<close>, opaque), or
  the object made by \<open>new Error(message)\<close> in this repository. A fresh \<open>Error\<close> object is
  never identical to a value the library threw, hence two constructors.
\<close>

datatype 'e thrown = Original 'e | New_Error jsstring

text \<open>
  The log of what a run did, in order: entries into the exported functions of
  \<open>backgroundRemoval.ts\<close>, calls of the two library primitives with their outcome, and
  lines written by \<open>console.error\<close> (label and error object). \<open>'b\<close> is the type of blobs.
\<close>

datatype ('e, 'b) event =
    Call_loadModel Config
  | Call_resetModel
  | Call_processImage File Config
  | Preload PreloadArgs "'e option"
  | RemoveBackground File Config "'e + 'b"
  | Console_error jsstring "'e thrown"

text \<open>
  The inference library and the browser are outside the repository. They are parameters:
  each primitive reads and updates a state \<open>'x\<close> of its own, so that two calls with the
  same arguments may end differently. \<open>preload\<close> answers \<open>None\<close> when the promise resolves
  and \<open>Some e\<close> when it rejects with \<open>e\<close>; \<open>removeBackground\<close> answers \<open>Inr blob\<close> or
  \<open>Inl e\<close>; \<open>createObjectURL\<close> (of the browser) answers \<open>Inr url\<close>, or \<open>Inl e\<close> when it
  throws \<open>e\<close>. \<open>error_message e\<close> is \<open>Some m\<close> when \<open>e instanceof Error\<close> with message \<open>m\<close>.
\<close>

record ('e, 'b, 'x) env =
  preload :: "PreloadArgs \<Rightarrow> 'x \<Rightarrow> 'e option \<times> 'x"
  removeBackground :: "File \<Rightarrow> Config \<Rightarrow> 'x \<Rightarrow> ('e + 'b) \<times> 'x"
  createObjectURL :: "File + 'b \<Rightarrow> 'x \<Rightarrow> ('e + jsstring) \<times> 'x"
  error_message :: "'e \<Rightarrow> jsstring option"

text \<open>
  The state of the module \<open>backgroundRemoval.ts\<close>: its variable \<open>isModelLoaded\<close>, together
  with the state of the outside world and the log. Every log entry is stamped with the
  value \<open>isModelLoaded\<close> had when the entry was written.
\<close>

record ('e, 'b, 'x) state =
  isModelLoaded :: bool
  lib :: 'x
  trace :: "(bool \<times> ('e, 'b) event) list"

definition init_state :: "'x \<Rightarrow> ('e, 'b, 'x) state" where
  "init_state x = \<lparr>isModelLoaded = False, lib = x, trace = []\<rparr>"

definition emit :: "('e, 'b) event \<Rightarrow> ('e, 'b, 'x) state \<Rightarrow> ('e, 'b, 'x) state" where
  "emit ev s = s\<lparr>trace := trace s @ [(isModelLoaded s, ev)]\<rparr>"

section \<open>The module \<open>backgroundRemoval.ts\<close>\<close>

definition defaultConfig :: Config where
  "defaultConfig =
     \<lparr>debug = False, device = Cpu, model = Isnet_fp16,
      output = \<lparr>format = Image_png, quality = 8 / 10, type = Foreground\<rparr>\<rparr>"

text \<open>A parameter declared \<open>config: Config = defaultConfig\<close>: \<open>None\<close> is the omitted argument.\<close>

definition or_default :: "Config option \<Rightarrow> Config" where
  "or_default copt = (case copt of None \<Rightarrow> defaultConfig | Some c \<Rightarrow> c)"

definition preload_args :: "Config \<Rightarrow> PreloadArgs" where
  "preload_args config = (model config, debug config, device config)"

text \<open>
  \<open>loadModel\<close>, when nothing else runs between the call of \<open>preload\<close> and the moment its
  promise settles.
\<close>

definition loadModel ::
  "('e, 'b, 'x) env \<Rightarrow> Config option \<Rightarrow> ('e, 'b, 'x) state
     \<Rightarrow> ('e thrown + unit) \<times> ('e, 'b, 'x) state" where
  "loadModel env copt s0 =
     (let config = or_default copt;
          s = emit (Call_loadModel config) s0
      in if \<not> isModelLoaded s then
           (case preload env (preload_args config) (lib s) of
              (None, x) \<Rightarrow>
                (Inr (), (emit (Preload (preload_args config) None) (s\<lparr>lib := x\<rparr>))
                           \<lparr>isModelLoaded := True\<rparr>)
            | (Some error, x) \<Rightarrow>
                (Inl (Original error),
                 emit (Console_error (ascii ''Failed to preload model:'') (Original error))
                   (emit (Preload (preload_args config) (Some error)) (s\<lparr>lib := x\<rparr>))))
         else (Inr (), s))"

text \<open>
  \<open>loadModel\<close> is an \<open>async\<close> function: it runs up to \<open>await preload(...)\<close> and gives
  control back; the rest of its body runs when the promise settles, and other handlers
  may run in between. \<open>loadModel_start\<close> is the first half: it answers \<open>None\<close> when the
  function returns without awaiting, and otherwise the pending call, with the arguments it
  was made with and the outcome it will settle with. \<open>loadModel_settle\<close> is the second
  half, run on the state the module has by then.
\<close>

datatype 'e pending = Pending PreloadArgs "'e option"

definition loadModel_start ::
  "('e, 'b, 'x) env \<Rightarrow> Config option \<Rightarrow> ('e, 'b, 'x) state
     \<Rightarrow> 'e pending option \<times> ('e, 'b, 'x) state" where
  "loadModel_start env copt s0 =
     (let config = or_default copt;
          s = emit (Call_loadModel config) s0
      in if \<not> isModelLoaded s then
           (case preload env (preload_args config) (lib s) of
              (r, x) \<Rightarrow> (Some (Pending (preload_args config) r), s\<lparr>lib := x\<rparr>))
         else (None, s))"

definition loadModel_settle ::
  "'e pending \<Rightarrow> ('e, 'b, 'x) state \<Rightarrow> ('e thrown + unit) \<times> ('e, 'b, 'x) state" where
  "loadModel_settle p s =
     (case p of
        Pending args None \<Rightarrow>
          (Inr (), (emit (Preload args None) s)\<lparr>isModelLoaded := True\<rparr>)
      | Pending args (Some error) \<Rightarrow>
          (Inl (Original error),
           emit (Console_error (ascii ''Failed to preload model:'') (Original error))
             (emit (Preload args (Some error)) s)))"

text \<open>The message of the error \<open>processImageBackgroundRemoval\<close> throws (ten characters).\<close>

definition failedMessage :: jsstring where
  "failedMessage =
     [0x80CC, 0x666F, 0x53BB, 0x9664, 0x5931, 0x8D25, 0xFF0C, 0x8BF7, 0x91CD, 0x8BD5]"

text \<open>
  \<open>processImageBackgroundRemoval\<close>, when nothing else runs while it awaits, and its
  \<open>catch\<close> block.
\<close>

definition processImage_catch ::
  "'e thrown \<Rightarrow> ('e, 'b, 'x) state \<Rightarrow> ('e thrown + 'b) \<times> ('e, 'b, 'x) state" where
  "processImage_catch error s =
     (Inl (New_Error failedMessage),
      emit (Console_error (ascii ''Background removal failed:'') error) s)"

definition processImageBackgroundRemoval ::
  "('e, 'b, 'x) env \<Rightarrow> File \<Rightarrow> Config option \<Rightarrow> ('e, 'b, 'x) state
     \<Rightarrow> ('e thrown + 'b) \<times> ('e, 'b, 'x) state" where
  "processImageBackgroundRemoval env imageFile copt s0 =
     (let config = or_default copt;
          s = emit (Call_processImage imageFile config) s0
      in case (if \<not> isModelLoaded s then loadModel env (Some config) s else (Inr (), s)) of
           (Inl error, s1) \<Rightarrow> processImage_catch error s1
         | (Inr _, s1) \<Rightarrow>
             (case removeBackground env imageFile config (lib s1) of
                (Inl error, x) \<Rightarrow>
                  processImage_catch (Original error)
                    (emit (RemoveBackground imageFile config (Inl error)) (s1\<lparr>lib := x\<rparr>))
              | (Inr blob, x) \<Rightarrow>
                  (Inr blob,
                   emit (RemoveBackground imageFile config (Inr blob)) (s1\<lparr>lib := x\<rparr>))))"

definition isModelReady :: "('e, 'b, 'x) state \<Rightarrow> bool" where
  "isModelReady s = isModelLoaded s"

definition resetModel :: "('e, 'b, 'x) state \<Rightarrow> ('e, 'b, 'x) state" where
  "resetModel s = (emit Call_resetModel s)\<lparr>isModelLoaded := False\<rparr>"

text \<open>What a call added to the log.\<close>

definition added :: "('e, 'b, 'x) state \<Rightarrow> ('e, 'b, 'x) state \<Rightarrow> (bool \<times> ('e, 'b) event) list" where
  "added s s' = drop (length (trace s)) (trace s')"

section \<open>The settings panel, \<open>ConfigPanel.tsx\<close>\<close>

text \<open>
  \<open>Partial<Config>\<close> and \<open>Partial<Config['output']>\<close>: a key that is absent is \<open>None\<close>. The
  object spread \<open>{...a, ...updates}\<close> takes a key from \<open>updates\<close> when it is there.
\<close>

datatype OutputUpdates =
  OutputUpdates (upd_format: "Format option") (upd_quality: "real option")
    (upd_type: "OutputType option")

datatype ConfigUpdates =
  ConfigUpdates (upd_debug: "bool option") (upd_device: "Device option")
    (upd_model: "Model option") (upd_output: "Output option")

definition spread :: "'a \<Rightarrow> 'a option \<Rightarrow> 'a" where
  "spread old upd = (case upd of None \<Rightarrow> old | Some v \<Rightarrow> v)"

definition updateConfig :: "(Config \<Rightarrow> 'r) \<Rightarrow> Config \<Rightarrow> ConfigUpdates \<Rightarrow> 'r" where
  "updateConfig onConfigChange cfg updates =
     onConfigChange
       \<lparr>debug = spread (debug cfg) (upd_debug updates),
        device = spread (device cfg) (upd_device updates),
        model = spread (model cfg) (upd_model updates),
        output = spread (output cfg) (upd_output updates)\<rparr>"

definition updateOutputConfig :: "(Config \<Rightarrow> 'r) \<Rightarrow> Config \<Rightarrow> OutputUpdates \<Rightarrow> 'r" where
  "updateOutputConfig onConfigChange cfg updates =
     onConfigChange
       (cfg\<lparr>output :=
          \<lparr>format = spread (format (output cfg)) (upd_format updates),
           quality = spread (quality (output cfg)) (upd_quality updates),
           type = spread (type (output cfg)) (upd_type updates)\<rparr>\<rparr>)"

section \<open>The interaction layer, \<open>App.tsx\<close>\<close>

definition initFailedLabel :: jsstring where
  "initFailedLabel =
     [0x6A21, 0x578B, 0x52A0, 0x8F7D, 0x5931, 0x8D25, 0x003A]"

definition initFailedMessage :: jsstring where
  "initFailedMessage =
     [0x0041, 0x0049, 0x6A21, 0x578B, 0x52A0, 0x8F7D, 0x5931, 0x8D25, 0xFF0C, 0x8BF7,
      0x5237, 0x65B0, 0x9875, 0x9762, 0x91CD, 0x8BD5]"

definition reloadFailedLabel :: jsstring where
  "reloadFailedLabel =
     [0x6A21, 0x578B, 0x91CD, 0x65B0, 0x52A0, 0x8F7D, 0x5931, 0x8D25, 0x003A]"

definition reloadFailedMessage :: jsstring where
  "reloadFailedMessage =
     [0x0041, 0x0049, 0x6A21, 0x578B, 0x52A0, 0x8F7D, 0x5931, 0x8D25, 0xFF0C, 0x8BF7,
      0x68C0, 0x67E5, 0x914D, 0x7F6E, 0x6216, 0x5237, 0x65B0, 0x9875, 0x9762, 0x91CD,
      0x8BD5]"

definition invalidFileMessage :: jsstring where
  "invalidFileMessage =
     [0x8BF7, 0x9009, 0x62E9, 0x6709, 0x6548, 0x7684, 0x56FE, 0x7247, 0x6587, 0x4EF6,
      0xFF08, 0x004A, 0x0050, 0x0047, 0x3001, 0x0050, 0x004E, 0x0047, 0x3001, 0x0057,
      0x0045, 0x0042, 0x0050, 0x7B49, 0xFF09]"

definition tooLargeMessage :: jsstring where
  "tooLargeMessage =
     [0x56FE, 0x7247, 0x6587, 0x4EF6, 0x5927, 0x5C0F, 0x4E0D, 0x80FD, 0x8D85, 0x8FC7,
      0x0031, 0x0030, 0x004D, 0x0042]"

definition notReadyMessage :: jsstring where
  "notReadyMessage =
     [0x0041, 0x0049, 0x6A21, 0x578B, 0x5C1A, 0x672A, 0x52A0, 0x8F7D, 0x5B8C, 0x6210,
      0xFF0C, 0x8BF7, 0x7A0D, 0x5019, 0x518D, 0x8BD5]"

definition genericMessage :: jsstring where
  "genericMessage =
     [0x5904, 0x7406, 0x56FE, 0x7247, 0x65F6, 0x51FA, 0x73B0, 0x9519, 0x8BEF, 0xFF0C,
      0x8BF7, 0x91CD, 0x8BD5]"

record ProcessedImage =
  original :: jsstring
  processed :: jsstring
  filename :: jsstring

text \<open>
  The state hooks of \<open>App\<close> that the modelled handlers touch, and the state of the imported
  module. A handler reads the hooks as they were at the last render.
\<close>

record ('e, 'b, 'x) app =
  isProcessing :: bool
  processedImage :: "ProcessedImage option"
  error :: "jsstring option"
  modelLoaded :: bool
  loadingProgress :: nat
  config :: Config
  module :: "('e, 'b, 'x) state"

definition init_app :: "'x \<Rightarrow> ('e, 'b, 'x) app" where
  "init_app x =
     \<lparr>isProcessing = False, processedImage = None, error = None, modelLoaded = False,
      loadingProgress = 0, config = defaultConfig, module = init_state x\<rparr>"

text \<open>
  The effect that runs once when \<open>App\<close> is mounted, and \<open>handleConfigChange\<close>, each when
  nothing else runs while it awaits \<open>loadModel\<close>.
\<close>

definition initModel :: "('e, 'b, 'x) env \<Rightarrow> ('e, 'b, 'x) app \<Rightarrow> ('e, 'b, 'x) app" where
  "initModel env a =
     (let a1 = a\<lparr>loadingProgress := 20\<rparr>
      in case loadModel env (Some (config a)) (module a1) of
           (Inr _, s) \<Rightarrow> a1\<lparr>loadingProgress := 100, modelLoaded := True, module := s\<rparr>
         | (Inl err, s) \<Rightarrow>
             a1\<lparr>error := Some initFailedMessage, modelLoaded := False,
                module := emit (Console_error initFailedLabel err) s\<rparr>)"

definition handleConfigChange ::
  "('e, 'b, 'x) env \<Rightarrow> Config \<Rightarrow> ('e, 'b, 'x) app \<Rightarrow> ('e, 'b, 'x) app" where
  "handleConfigChange env newConfig a =
     (let a1 = a\<lparr>config := newConfig\<rparr>
      in if model newConfig \<noteq> model (config a) \<or> device newConfig \<noteq> device (config a)
            \<or> debug newConfig \<noteq> debug (config a)
         then
           (let a2 = a1\<lparr>modelLoaded := False, loadingProgress := 0,
                       module := resetModel (module a1)\<rparr>;
                a3 = a2\<lparr>loadingProgress := 20\<rparr>
            in case loadModel env (Some newConfig) (module a3) of
                 (Inr _, s) \<Rightarrow>
                   a3\<lparr>loadingProgress := 100, modelLoaded := True, error := None,
                      module := s\<rparr>
               | (Inl err, s) \<Rightarrow>
                   a3\<lparr>error := Some reloadFailedMessage, modelLoaded := False,
                      module := emit (Console_error reloadFailedLabel err) s\<rparr>)
         else a1)"

definition startsWith :: "jsstring \<Rightarrow> jsstring \<Rightarrow> bool" where
  "startsWith s p = (take (length p) s = p)"

text \<open>
  \<open>handleFileSelect\<close>, when nothing else runs while it awaits, and its \<open>catch\<close> and
  \<open>finally\<close> blocks. Both calls of \<open>createObjectURL\<close> are inside the \<open>try\<close>.
\<close>

definition handleFileSelect_catch ::
  "('e, 'b, 'x) env \<Rightarrow> 'e thrown \<Rightarrow> ('e, 'b, 'x) state \<Rightarrow> ('e, 'b, 'x) app
     \<Rightarrow> ('e, 'b, 'x) app" where
  "handleFileSelect_catch env err s a =
     a\<lparr>error :=
         Some (case err of
                 New_Error message \<Rightarrow> message
               | Original e \<Rightarrow>
                   (case error_message env e of
                      Some message \<Rightarrow> message
                    | None \<Rightarrow> genericMessage)),
       module := emit (Console_error (ascii ''Background removal error:'') err) s,
       isProcessing := False\<rparr>"

definition handleFileSelect ::
  "('e, 'b, 'x) env \<Rightarrow> File \<Rightarrow> ('e, 'b, 'x) app \<Rightarrow> ('e, 'b, 'x) app" where
  "handleFileSelect env file a =
     (if \<not> startsWith (file_type file) (ascii ''image/'') then
        a\<lparr>error := Some invalidFileMessage\<rparr>
      else if file_size file > 10 * 1024 * 1024 then
        a\<lparr>error := Some tooLargeMessage\<rparr>
      else if \<not> isModelReady (module a) then
        a\<lparr>error := Some notReadyMessage\<rparr>
      else
        (let a1 = a\<lparr>error := None, isProcessing := True\<rparr>
         in case createObjectURL env (Inl file) (lib (module a1)) of
              (Inl e, x1) \<Rightarrow>
                handleFileSelect_catch env (Original e) ((module a1)\<lparr>lib := x1\<rparr>) a1
            | (Inr originalUrl, x1) \<Rightarrow>
                (case processImageBackgroundRemoval env file (Some (config a))
                        ((module a1)\<lparr>lib := x1\<rparr>) of
                   (Inl err, s2) \<Rightarrow> handleFileSelect_catch env err s2 a1
                 | (Inr blob, s2) \<Rightarrow>
                     (case createObjectURL env (Inr blob) (lib s2) of
                        (Inl e, x2) \<Rightarrow>
                          handleFileSelect_catch env (Original e) (s2\<lparr>lib := x2\<rparr>) a1
                      | (Inr processedUrl, x2) \<Rightarrow>
                          a1\<lparr>processedImage :=
                               Some \<lparr>original = originalUrl, processed = processedUrl,
                                     filename = file_name file\<rparr>,
                             module := s2\<lparr>lib := x2\<rparr>, isProcessing := False\<rparr>))))"

text \<open>
  Nothing in \<open>App.tsx\<close> keeps a handler from starting while \<open>loadModel\<close> is pending in
  another: the settings panel stays enabled during a load. The halves of the mount effect
  and of \<open>handleConfigChange\<close> around \<open>await loadModel(...)\<close>: \<open>_start\<close> runs up to the
  \<open>await\<close> and answers the pending call (\<open>None\<close> when the handler is over already),
  \<open>_settle\<close> is the rest of the handler, run on the state of that later moment. The
  setters of the state hooks write to the current state.
\<close>

definition initModel_finish ::
  "'e thrown + unit \<Rightarrow> ('e, 'b, 'x) app \<Rightarrow> ('e, 'b, 'x) app" where
  "initModel_finish r a =
     (case r of
        Inr _ \<Rightarrow> a\<lparr>loadingProgress := 100, modelLoaded := True\<rparr>
      | Inl err \<Rightarrow>
          a\<lparr>error := Some initFailedMessage, modelLoaded := False,
            module := emit (Console_error initFailedLabel err) (module a)\<rparr>)"

definition initModel_start ::
  "('e, 'b, 'x) env \<Rightarrow> ('e, 'b, 'x) app \<Rightarrow> 'e pending option \<times> ('e, 'b, 'x) app" where
  "initModel_start env a =
     (let a1 = a\<lparr>loadingProgress := 20\<rparr>
      in case loadModel_start env (Some (config a)) (module a1) of
           (None, s) \<Rightarrow> (None, initModel_finish (Inr ()) (a1\<lparr>module := s\<rparr>))
         | (Some p, s) \<Rightarrow> (Some p, a1\<lparr>module := s\<rparr>))"

definition initModel_settle ::
  "'e pending \<Rightarrow> ('e, 'b, 'x) app \<Rightarrow> ('e, 'b, 'x) app" where
  "initModel_settle p a =
     (case loadModel_settle p (module a) of (r, s) \<Rightarrow> initModel_finish r (a\<lparr>module := s\<rparr>))"

definition handleConfigChange_finish ::
  "'e thrown + unit \<Rightarrow> ('e, 'b, 'x) app \<Rightarrow> ('e, 'b, 'x) app" where
  "handleConfigChange_finish r a =
     (case r of
        Inr _ \<Rightarrow> a\<lparr>loadingProgress := 100, modelLoaded := True, error := None\<rparr>
      | Inl err \<Rightarrow>
          a\<lparr>error := Some reloadFailedMessage, modelLoaded := False,
            module := emit (Console_error reloadFailedLabel err) (module a)\<rparr>)"

definition handleConfigChange_start ::
  "('e, 'b, 'x) env \<Rightarrow> Config \<Rightarrow> ('e, 'b, 'x) app
     \<Rightarrow> 'e pending option \<times> ('e, 'b, 'x) app" where
  "handleConfigChange_start env newConfig a =
     (let a1 = a\<lparr>config := newConfig\<rparr>
      in if model newConfig \<noteq> model (config a) \<or> device newConfig \<noteq> device (config a)
            \<or> debug newConfig \<noteq> debug (config a)
         then
           (let a2 = a1\<lparr>modelLoaded := False, loadingProgress := 0,
                       module := resetModel (module a1)\<rparr>;
                a3 = a2\<lparr>loadingProgress := 20\<rparr>
            in case loadModel_start env (Some newConfig) (module a3) of
                 (None, s) \<Rightarrow> (None, handleConfigChange_finish (Inr ()) (a3\<lparr>module := s\<rparr>))
               | (Some p, s) \<Rightarrow> (Some p, a3\<lparr>module := s\<rparr>))
         else (None, a1))"

definition handleConfigChange_settle ::
  "'e pending \<Rightarrow> ('e, 'b, 'x) app \<Rightarrow> ('e, 'b, 'x) app" where
  "handleConfigChange_settle p a =
     (case loadModel_settle p (module a) of
        (r, s) \<Rightarrow> handleConfigChange_finish r (a\<lparr>module := s\<rparr>))"

text \<open>
  The calls of \<open>preload\<close> in a log with their outcomes, oldest first, and the arguments of
  the latest one when it resolved: the model that is loaded.
\<close>

fun preloads :: "(bool \<times> ('e, 'b) event) list \<Rightarrow> (PreloadArgs \<times> 'e option) list" where
  "preloads [] = []"
| "preloads ((_, Preload args r) # es) = (args, r) # preloads es"
| "preloads (_ # es) = preloads es"

definition loaded :: "(bool \<times> ('e, 'b) event) list \<Rightarrow> PreloadArgs option" where
  "loaded es =
     (case rev (preloads es) of
        (args, None) # _ \<Rightarrow> Some args
      | _ \<Rightarrow> None)"

text \<open>
  The invariant of section 3 of the specification, for a configuration \<open>current\<close>: the flag
  is set only if the model that is loaded is the one \<open>current\<close> selects.
\<close>

definition ready_means_loaded :: "Config \<Rightarrow> ('e, 'b, 'x) state \<Rightarrow> bool" where
  "ready_means_loaded current s =
     (isModelLoaded s \<longrightarrow> loaded (trace s) = Some (preload_args current))"

subsection \<open>Concrete environments and inputs\<close>

text \<open>
  A library whose \<open>preload\<close> always ends with \<open>p\<close> and whose \<open>removeBackground\<close> always
  ends with \<open>r\<close>; errors and blobs are numbers.
\<close>

definition test_env :: "nat option \<Rightarrow> nat + nat \<Rightarrow> (nat, nat, unit) env" where
  "test_env p r =
     \<lparr>preload = (\<lambda>args x. (p, x)),
      removeBackground = (\<lambda>f c x. (r, x)),
      createObjectURL = (\<lambda>v x. (Inr (ascii ''blob:url''), x)),
      error_message = (\<lambda>e. None)\<rparr>"

definition always_ok :: "(nat, nat, unit) env" where
  "always_ok = test_env None (Inr 0)"

definition fresh :: "(nat, nat, unit) state" where
  "fresh = init_state ()"

definition warm :: "(nat, nat, unit) state" where
  "warm =
     \<lparr>isModelLoaded = True, lib = (),
      trace = [(False, Call_loadModel defaultConfig),
               (False, Preload (Isnet_fp16, False, Cpu) None)]\<rparr>"

definition mounted :: "(nat, nat, unit) app" where
  "mounted = initModel always_ok (init_app ())"

definition isnetConfig :: Config where
  "isnetConfig = defaultConfig\<lparr>model := Isnet\<rparr>"

definition jpegConfig :: Config where
  "jpegConfig = defaultConfig\<lparr>output := \<lparr>format = Image_jpeg, quality = 1 / 2, type = Mask\<rparr>\<rparr>"

definition sampleFile :: File where
  "sampleFile = File (ascii ''a.png'') (ascii ''image/png'') 2048"

text \<open>
  A library that keeps the list of the calls it received, oldest first. \<open>preload\<close> ends
  with \<open>p args\<close>, \<open>removeBackground\<close> with \<open>r\<close>.
\<close>

datatype call =
    Called_preload PreloadArgs
  | Called_removeBackground File Config
  | Called_createObjectURL

definition recording_env ::
  "(PreloadArgs \<Rightarrow> nat option) \<Rightarrow> nat + nat \<Rightarrow> (nat, nat, call list) env" where
  "recording_env p r =
     \<lparr>preload = (\<lambda>args h. (p args, h @ [Called_preload args])),
      removeBackground = (\<lambda>f c h. (r, h @ [Called_removeBackground f c])),
      createObjectURL = (\<lambda>v h. (Inr (ascii ''blob:url''), h @ [Called_createObjectURL])),
      error_message = (\<lambda>e. None)\<rparr>"

definition blank :: "(nat, nat, call list) state" where
  "blank = init_state []"

definition loaded_once :: "(nat, nat, call list) state" where
  "loaded_once =
     \<lparr>isModelLoaded = True, lib = [Called_preload (Isnet_fp16, False, Cpu)],
      trace = [(False, Call_loadModel defaultConfig),
               (False, Preload (Isnet_fp16, False, Cpu) None)]\<rparr>"

text \<open>
  A session in which the user picks the model \<open>isnet\<close> while the load started by the mount
  effect is pending. The library resolves the preload of \<open>isnet_fp16\<close> and rejects the one
  of \<open>isnet\<close> with error 7. In order: the mount effect starts; \<open>handleConfigChange\<close>
  starts; the first promise settles; the second promise settles; a file is selected.
\<close>

definition isnet_fails :: "(nat, nat, call list) env" where
  "isnet_fails =
     recording_env (\<lambda>(m, d, v). if m = Isnet then Some 7 else None) (Inr 0)"

definition overlap_mount_started :: "nat pending option \<times> (nat, nat, call list) app" where
  "overlap_mount_started = initModel_start isnet_fails (init_app [])"

definition overlap_change_started :: "nat pending option \<times> (nat, nat, call list) app" where
  "overlap_change_started =
     handleConfigChange_start isnet_fails isnetConfig (snd overlap_mount_started)"

definition overlap_mount_settled :: "(nat, nat, call list) app" where
  "overlap_mount_settled =
     initModel_settle (Pending (Isnet_fp16, False, Cpu) None) (snd overlap_change_started)"

definition overlap_change_settled :: "(nat, nat, call list) app" where
  "overlap_change_settled =
     handleConfigChange_settle (Pending (Isnet, False, Cpu) (Some 7)) overlap_mount_settled"

definition overlap_file_selected :: "(nat, nat, call list) app" where
  "overlap_file_selected = handleFileSelect isnet_fails sampleFile overlap_change_settled"

section \<open>Properties of the module\<close>

lemmas module_defs =
  loadModel_def processImageBackgroundRemoval_def processImage_catch_def resetModel_def
  isModelReady_def emit_def or_default_def Let_def

lemmas test_defs =
  test_env_def always_ok_def fresh_def warm_def init_state_def isnetConfig_def jpegConfig_def
  defaultConfig_def preload_args_def sampleFile_def added_def

lemmas recording_defs =
  recording_env_def blank_def loaded_once_def isnet_fails_def

lemma preloads_append: "preloads (xs @ ys) = preloads xs @ preloads ys"
  by (induction xs rule: preloads.induct) simp_all

lemma loaded_append:
  "loaded (es @ es') = (if preloads es' = [] then loaded es else loaded es')"
proof (cases "rev (preloads es')")
  case Nil
  then show ?thesis by (simp add: loaded_def preloads_append)
next
  case (Cons p ps)
  then have "preloads es' \<noteq> []" by auto
  with Cons show ?thesis by (simp add: loaded_def preloads_append)
qed

lemma or_default_Some: "or_default (Some c) = c"
  by (simp add: or_default_def)

lemma warm_is_loaded: "loadModel always_ok None fresh = (Inr (), warm)"
  by (simp add: module_defs test_defs)

lemma loaded_once_is_loaded:
  "loadModel (recording_env (\<lambda>args. None) r) None blank = (Inr (), loaded_once)"
  by (simp add: module_defs test_defs recording_defs)

text \<open>\<open>loadModel\<close> is its two halves run one right after the other.\<close>

lemma loadModel_halves:
  "loadModel env copt s =
     (case loadModel_start env copt s of
        (None, s') \<Rightarrow> (Inr (), s')
      | (Some p, s') \<Rightarrow> loadModel_settle p s')"
  by (simp add: loadModel_def loadModel_start_def loadModel_settle_def Let_def
      split: prod.splits option.splits)

text \<open>
  C7. For every configuration, when \<open>loadModel\<close> returns normally, \<open>isModelReady\<close> asked
  next answers true.
\<close>

theorem loadModel_success_ready:
  "loadModel env copt s = (Inr (), s') \<Longrightarrow> isModelReady s'"
  by (auto simp: module_defs split: prod.splits option.splits if_splits)

theorem loadModel_success_ready_witness:
  "loadModel always_ok (Some isnetConfig) fresh
     = (Inr (),
        \<lparr>isModelLoaded = True, lib = (),
         trace = [(False, Call_loadModel isnetConfig), (False, Preload (Isnet, False, Cpu) None)]\<rparr>)
   \<and> isModelReady
        \<lparr>isModelLoaded = True, lib = (),
         trace = [(False, Call_loadModel isnetConfig),
                  (False, Preload (Isnet, False, Cpu) None :: (nat, nat) event)]\<rparr>"
proof -
  have h: "loadModel always_ok (Some isnetConfig) fresh
     = (Inr (),
        \<lparr>isModelLoaded = True, lib = (),
         trace = [(False, Call_loadModel isnetConfig), (False, Preload (Isnet, False, Cpu) None)]\<rparr>)"
    by (simp add: module_defs test_defs)
  from loadModel_success_ready [OF h] h show ?thesis by simp
qed

text \<open>
  C8. Whatever the flag was, after \<open>resetModel\<close> the query \<open>isModelReady\<close> answers false.
\<close>

theorem resetModel_not_ready: "isModelReady (resetModel s) = False"
  by (simp add: resetModel_def isModelReady_def)

text \<open>
  C10. \<open>loadModel\<close> and \<open>processImageBackgroundRemoval\<close> called without a configuration do
  what they do when called with \<open>defaultConfig\<close>, which is the configuration with debug off,
  device cpu, model isnet_fp16, and output png, quality 0.8, foreground.
\<close>

theorem omitted_config_is_default:
  "loadModel env None s = loadModel env (Some defaultConfig) s
   \<and> processImageBackgroundRemoval env f None s
       = processImageBackgroundRemoval env f (Some defaultConfig) s
   \<and> defaultConfig =
       \<lparr>debug = False, device = Cpu, model = Isnet_fp16,
        output = \<lparr>format = Image_png, quality = 0.8, type = Foreground\<rparr>\<rparr>"
  by (simp add: loadModel_def processImageBackgroundRemoval_def or_default_def defaultConfig_def)



text \<open>
  C3. When \<open>removeBackground\<close>, called by \<open>processImageBackgroundRemoval\<close>, fails with
  \<open>e\<close>, the value thrown is the error with the fixed message, whatever \<open>e\<close> is, and \<open>e\<close>
  is in the \<open>console.error\<close> line that ends the log and nowhere in the thrown value. This
  holds when the call finds the flag true, and when it finds the flag false and its own
  \<open>loadModel\<close> succeeds.
\<close>

theorem inference_failure_generic_error:
  "(isModelLoaded t \<and> removeBackground env f (or_default copt) (lib t) = (Inl e, y) \<longrightarrow>
      processImageBackgroundRemoval env f copt t =
        (Inl (New_Error failedMessage),
         t\<lparr>lib := y,
           trace := trace t @
             [(True, Call_processImage f (or_default copt)),
              (True, RemoveBackground f (or_default copt) (Inl e)),
              (True, Console_error (ascii ''Background removal failed:'') (Original e))]\<rparr>))
   \<and> (\<not> isModelLoaded s
       \<and> preload env (preload_args (or_default copt)) (lib s) = (None, x1)
       \<and> removeBackground env f (or_default copt) x1 = (Inl e, x) \<longrightarrow>
      processImageBackgroundRemoval env f copt s =
        (Inl (New_Error failedMessage),
         s\<lparr>isModelLoaded := True, lib := x,
           trace := trace s @
             [(False, Call_processImage f (or_default copt)),
              (False, Call_loadModel (or_default copt)),
              (False, Preload (preload_args (or_default copt)) None),
              (True, RemoveBackground f (or_default copt) (Inl e)),
              (True, Console_error (ascii ''Background removal failed:'') (Original e))]\<rparr>))
   \<and> New_Error failedMessage \<noteq> Original e"
proof (intro conjI impI)
  assume "isModelLoaded t \<and> removeBackground env f (or_default copt) (lib t) = (Inl e, y)"
  then show "processImageBackgroundRemoval env f copt t =
        (Inl (New_Error failedMessage),
         t\<lparr>lib := y,
           trace := trace t @
             [(True, Call_processImage f (or_default copt)),
              (True, RemoveBackground f (or_default copt) (Inl e)),
              (True, Console_error (ascii ''Background removal failed:'') (Original e))]\<rparr>)"
    by (simp add: processImageBackgroundRemoval_def processImage_catch_def emit_def Let_def)
next
  assume "\<not> isModelLoaded s
       \<and> preload env (preload_args (or_default copt)) (lib s) = (None, x1)
       \<and> removeBackground env f (or_default copt) x1 = (Inl e, x)"
  then show "processImageBackgroundRemoval env f copt s =
        (Inl (New_Error failedMessage),
         s\<lparr>isModelLoaded := True, lib := x,
           trace := trace s @
             [(False, Call_processImage f (or_default copt)),
              (False, Call_loadModel (or_default copt)),
              (False, Preload (preload_args (or_default copt)) None),
              (True, RemoveBackground f (or_default copt) (Inl e)),
              (True, Console_error (ascii ''Background removal failed:'') (Original e))]\<rparr>)"
    by (simp add: processImageBackgroundRemoval_def processImage_catch_def loadModel_def
        emit_def Let_def or_default_Some)
next
  show "New_Error failedMessage \<noteq> Original e"
    by simp
qed

theorem inference_failure_generic_error_witness:
  "isModelLoaded loaded_once
   \<and> removeBackground (recording_env (\<lambda>args. None) (Inl 9)) sampleFile
        (or_default (Some jpegConfig)) (lib loaded_once)
       = (Inl 9, [Called_preload (Isnet_fp16, False, Cpu),
                  Called_removeBackground sampleFile jpegConfig])
   \<and> \<not> isModelLoaded blank
   \<and> preload (recording_env (\<lambda>args. None) (Inl 9))
        (preload_args (or_default (Some jpegConfig))) (lib blank)
       = (None, [Called_preload (Isnet_fp16, False, Cpu)])
   \<and> removeBackground (recording_env (\<lambda>args. None) (Inl 9)) sampleFile
        (or_default (Some jpegConfig)) [Called_preload (Isnet_fp16, False, Cpu)]
       = (Inl 9, [Called_preload (Isnet_fp16, False, Cpu),
                  Called_removeBackground sampleFile jpegConfig])
   \<and> processImageBackgroundRemoval (recording_env (\<lambda>args. None) (Inl 9)) sampleFile
        (Some jpegConfig) loaded_once =
        (Inl (New_Error failedMessage),
         loaded_once
           \<lparr>lib := [Called_preload (Isnet_fp16, False, Cpu),
                    Called_removeBackground sampleFile jpegConfig],
            trace := trace loaded_once @
             [(True, Call_processImage sampleFile (or_default (Some jpegConfig))),
              (True, RemoveBackground sampleFile (or_default (Some jpegConfig)) (Inl 9)),
              (True, Console_error (ascii ''Background removal failed:'') (Original 9))]\<rparr>)
   \<and> processImageBackgroundRemoval (recording_env (\<lambda>args. None) (Inl 9)) sampleFile
        (Some jpegConfig) blank =
        (Inl (New_Error failedMessage),
         blank
           \<lparr>isModelLoaded := True,
            lib := [Called_preload (Isnet_fp16, False, Cpu),
                    Called_removeBackground sampleFile jpegConfig],
            trace := trace blank @
             [(False, Call_processImage sampleFile (or_default (Some jpegConfig))),
              (False, Call_loadModel (or_default (Some jpegConfig))),
              (False, Preload (preload_args (or_default (Some jpegConfig))) None),
              (True, RemoveBackground sampleFile (or_default (Some jpegConfig)) (Inl 9)),
              (True, Console_error (ascii ''Background removal failed:'') (Original 9))]\<rparr>)"
proof -
  let ?env = "recording_env (\<lambda>args. None) (Inl 9)"
  let ?h1 = "[Called_preload (Isnet_fp16, False, Cpu)]"
  let ?h2 = "[Called_preload (Isnet_fp16, False, Cpu),
              Called_removeBackground sampleFile jpegConfig]"
  have a1: "isModelLoaded loaded_once"
    by (simp add: recording_defs)
  have a2: "removeBackground ?env sampleFile (or_default (Some jpegConfig)) (lib loaded_once)
      = (Inl 9, ?h2)"
    by (simp add: recording_defs or_default_Some)
  have b1: "\<not> isModelLoaded blank"
    by (simp add: recording_defs init_state_def)
  have b2: "preload ?env (preload_args (or_default (Some jpegConfig))) (lib blank) = (None, ?h1)"
    by (simp add: recording_defs test_defs or_default_Some)
  have b3: "removeBackground ?env sampleFile (or_default (Some jpegConfig)) ?h1 = (Inl 9, ?h2)"
    by (simp add: recording_defs or_default_Some)
  from inference_failure_generic_error
    [of loaded_once ?env sampleFile "Some jpegConfig" 9 ?h2 blank ?h1 ?h2]
    a1 a2 b1 b2 b3
  show ?thesis
    by blast
qed

text \<open>
  C4. \<open>loadModel\<close> called while the flag is true returns at once: it does not call
  \<open>preload\<close>, the state of the library is as before. Hence, when a first call finds the
  flag false and its \<open>preload\<close> resolves, a second call that follows it succeeds too, and
  after both the library is in the state that this one call of \<open>preload\<close> left.
\<close>

theorem loadModel_idempotent:
  "(isModelLoaded t \<longrightarrow>
      loadModel env copt t = (Inr (), emit (Call_loadModel (or_default copt)) t)
      \<and> lib (snd (loadModel env copt t)) = lib t
      \<and> preloads (added t (snd (loadModel env copt t))) = [])
   \<and> (\<not> isModelLoaded s \<and> preload env (preload_args (or_default c1)) (lib s) = (None, x) \<longrightarrow>
        loadModel env c1 s =
          (Inr (),
           s\<lparr>isModelLoaded := True, lib := x,
             trace := trace s @
               [(False, Call_loadModel (or_default c1)),
                (False, Preload (preload_args (or_default c1)) None)]\<rparr>)
        \<and> loadModel env c2 (snd (loadModel env c1 s)) =
          (Inr (),
           s\<lparr>isModelLoaded := True, lib := x,
             trace := trace s @
               [(False, Call_loadModel (or_default c1)),
                (False, Preload (preload_args (or_default c1)) None),
                (True, Call_loadModel (or_default c2))]\<rparr>))
   \<and> (\<not> isModelLoaded s \<and> loadModel env c1 s = (Inr (), s1) \<longrightarrow>
        preload env (preload_args (or_default c1)) (lib s) = (None, lib s1)
        \<and> fst (loadModel env c2 s1) = Inr ()
        \<and> lib (snd (loadModel env c2 s1)) = lib s1
        \<and> preloads (added s (snd (loadModel env c2 s1)))
            = [(preload_args (or_default c1), None)])"
proof (intro conjI impI)
  assume "isModelLoaded t"
  then show "loadModel env copt t = (Inr (), emit (Call_loadModel (or_default copt)) t)"
    and "lib (snd (loadModel env copt t)) = lib t"
    and "preloads (added t (snd (loadModel env copt t))) = []"
    by (simp_all add: loadModel_def emit_def Let_def added_def)
next
  assume h: "\<not> isModelLoaded s \<and> preload env (preload_args (or_default c1)) (lib s) = (None, x)"
  then show first: "loadModel env c1 s =
          (Inr (),
           s\<lparr>isModelLoaded := True, lib := x,
             trace := trace s @
               [(False, Call_loadModel (or_default c1)),
                (False, Preload (preload_args (or_default c1)) None)]\<rparr>)"
    by (simp add: loadModel_def emit_def Let_def)
  show "loadModel env c2 (snd (loadModel env c1 s)) =
          (Inr (),
           s\<lparr>isModelLoaded := True, lib := x,
             trace := trace s @
               [(False, Call_loadModel (or_default c1)),
                (False, Preload (preload_args (or_default c1)) None),
                (True, Call_loadModel (or_default c2))]\<rparr>)"
    unfolding first by (simp add: loadModel_def emit_def Let_def)
next
  assume h: "\<not> isModelLoaded s \<and> loadModel env c1 s = (Inr (), s1)"
  obtain r x where p: "preload env (preload_args (or_default c1)) (lib s) = (r, x)"
    by (cases "preload env (preload_args (or_default c1)) (lib s)")
  from h have nl: "\<not> isModelLoaded s" and l: "loadModel env c1 s = (Inr (), s1)"
    by simp_all
  have "r \<noteq> Some e" for e
  proof
    assume "r = Some e"
    with nl p have "fst (loadModel env c1 s) = Inl (Original e)"
      by (simp add: loadModel_def emit_def Let_def)
    with l show False by simp
  qed
  then have r: "r = None"
    by (cases r) auto
  from nl p r have "loadModel env c1 s =
          (Inr (),
           s\<lparr>isModelLoaded := True, lib := x,
             trace := trace s @
               [(False, Call_loadModel (or_default c1)),
                (False, Preload (preload_args (or_default c1)) None)]\<rparr>)"
    by (simp add: loadModel_def emit_def Let_def)
  with l have s1: "s1 = s\<lparr>isModelLoaded := True, lib := x,
             trace := trace s @
               [(False, Call_loadModel (or_default c1)),
                (False, Preload (preload_args (or_default c1)) None)]\<rparr>"
    by simp
  from p r s1 show "preload env (preload_args (or_default c1)) (lib s) = (None, lib s1)"
    by simp
  from s1 show "fst (loadModel env c2 s1) = Inr ()"
    and "lib (snd (loadModel env c2 s1)) = lib s1"
    and "preloads (added s (snd (loadModel env c2 s1))) = [(preload_args (or_default c1), None)]"
    by (simp_all add: loadModel_def emit_def Let_def added_def)
qed

theorem loadModel_idempotent_witness:
  "isModelLoaded loaded_once \<and> \<not> isModelLoaded blank
   \<and> preload (recording_env (\<lambda>args. None) (Inr 0)) (preload_args (or_default None)) (lib blank)
       = (None, [Called_preload (Isnet_fp16, False, Cpu)])
   \<and> loadModel (recording_env (\<lambda>args. None) (Inr 0)) None blank = (Inr (), loaded_once)
   \<and> lib loaded_once = [Called_preload (Isnet_fp16, False, Cpu)]
   \<and> loadModel (recording_env (\<lambda>args. None) (Inr 0)) (Some isnetConfig) loaded_once
       = (Inr (), emit (Call_loadModel (or_default (Some isnetConfig))) loaded_once)
   \<and> lib (snd (loadModel (recording_env (\<lambda>args. None) (Inr 0)) (Some isnetConfig) loaded_once))
       = lib loaded_once
   \<and> loadModel (recording_env (\<lambda>args. None) (Inr 0)) (Some isnetConfig)
        (snd (loadModel (recording_env (\<lambda>args. None) (Inr 0)) None blank)) =
          (Inr (),
           blank\<lparr>isModelLoaded := True, lib := [Called_preload (Isnet_fp16, False, Cpu)],
             trace := trace blank @
               [(False, Call_loadModel (or_default None)),
                (False, Preload (preload_args (or_default None)) None),
                (True, Call_loadModel (or_default (Some isnetConfig)))]\<rparr>)
   \<and> preloads (added blank
        (snd (loadModel (recording_env (\<lambda>args. None) (Inr 0)) (Some isnetConfig) loaded_once)))
       = [(preload_args (or_default None), None)]"
proof -
  let ?env = "recording_env (\<lambda>args. None) (Inr 0)"
  let ?h1 = "[Called_preload (Isnet_fp16, False, Cpu)]"
  have a: "isModelLoaded loaded_once" "lib loaded_once = ?h1"
    by (simp_all add: recording_defs)
  have b1: "\<not> isModelLoaded blank"
    by (simp add: recording_defs init_state_def)
  have b2: "preload ?env (preload_args (or_default None)) (lib blank) = (None, ?h1)"
    by (simp add: recording_defs test_defs or_default_def)
  have b3: "loadModel ?env None blank = (Inr (), loaded_once)"
    by (simp add: loaded_once_is_loaded)
  from loadModel_idempotent
    [of loaded_once ?env "Some isnetConfig" blank None ?h1 "Some isnetConfig" loaded_once]
    a b1 b2 b3
  show ?thesis
    by blast
qed

text \<open>
  C5. A call of \<open>processImageBackgroundRemoval\<close> that finds the flag false enters
  \<open>loadModel\<close> once, which calls \<open>preload\<close>, before anything else. When \<open>preload\<close>
  resolves, \<open>removeBackground\<close> is called next, on the state \<open>preload\<close> left the library
  in and with the flag true; when \<open>preload\<close> rejects, \<open>removeBackground\<close> is not called.
  A call that finds the flag true does not enter \<open>loadModel\<close>: \<open>removeBackground\<close> is
  called on the library as it is.
\<close>

theorem processImage_loads_once_before_inference:
  "(\<not> isModelLoaded s
      \<and> preload env (preload_args (or_default copt)) (lib s) = (None, x1)
      \<and> removeBackground env f (or_default copt) x1 = (r, x) \<longrightarrow>
      processImageBackgroundRemoval env f copt s =
        ((case r of Inl e \<Rightarrow> Inl (New_Error failedMessage) | Inr blob \<Rightarrow> Inr blob),
         s\<lparr>isModelLoaded := True, lib := x,
           trace := trace s @
             [(False, Call_processImage f (or_default copt)),
              (False, Call_loadModel (or_default copt)),
              (False, Preload (preload_args (or_default copt)) None),
              (True, RemoveBackground f (or_default copt) r)] @
             (case r of
                Inl e \<Rightarrow>
                  [(True, Console_error (ascii ''Background removal failed:'') (Original e))]
              | Inr blob \<Rightarrow> [])\<rparr>))
   \<and> (\<not> isModelLoaded s'
       \<and> preload env (preload_args (or_default copt')) (lib s') = (Some e', x') \<longrightarrow>
      processImageBackgroundRemoval env f copt' s' =
        (Inl (New_Error failedMessage),
         s'\<lparr>lib := x',
            trace := trace s' @
              [(False, Call_processImage f (or_default copt')),
               (False, Call_loadModel (or_default copt')),
               (False, Preload (preload_args (or_default copt')) (Some e')),
               (False, Console_error (ascii ''Failed to preload model:'') (Original e')),
               (False, Console_error (ascii ''Background removal failed:'') (Original e'))]\<rparr>))
   \<and> (isModelLoaded t \<and> removeBackground env f (or_default copt) (lib t) = (q, y) \<longrightarrow>
      processImageBackgroundRemoval env f copt t =
        ((case q of Inl e \<Rightarrow> Inl (New_Error failedMessage) | Inr blob \<Rightarrow> Inr blob),
         t\<lparr>lib := y,
           trace := trace t @
             [(True, Call_processImage f (or_default copt)),
              (True, RemoveBackground f (or_default copt) q)] @
             (case q of
                Inl e \<Rightarrow>
                  [(True, Console_error (ascii ''Background removal failed:'') (Original e))]
              | Inr blob \<Rightarrow> [])\<rparr>))"
proof (intro conjI impI)
  assume "\<not> isModelLoaded s
      \<and> preload env (preload_args (or_default copt)) (lib s) = (None, x1)
      \<and> removeBackground env f (or_default copt) x1 = (r, x)"
  then show "processImageBackgroundRemoval env f copt s =
        ((case r of Inl e \<Rightarrow> Inl (New_Error failedMessage) | Inr blob \<Rightarrow> Inr blob),
         s\<lparr>isModelLoaded := True, lib := x,
           trace := trace s @
             [(False, Call_processImage f (or_default copt)),
              (False, Call_loadModel (or_default copt)),
              (False, Preload (preload_args (or_default copt)) None),
              (True, RemoveBackground f (or_default copt) r)] @
             (case r of
                Inl e \<Rightarrow>
                  [(True, Console_error (ascii ''Background removal failed:'') (Original e))]
              | Inr blob \<Rightarrow> [])\<rparr>)"
    by (cases r)
       (simp_all add: processImageBackgroundRemoval_def processImage_catch_def loadModel_def
          emit_def Let_def or_default_Some)
next
  assume "\<not> isModelLoaded s'
       \<and> preload env (preload_args (or_default copt')) (lib s') = (Some e', x')"
  then show "processImageBackgroundRemoval env f copt' s' =
        (Inl (New_Error failedMessage),
         s'\<lparr>lib := x',
            trace := trace s' @
              [(False, Call_processImage f (or_default copt')),
               (False, Call_loadModel (or_default copt')),
               (False, Preload (preload_args (or_default copt')) (Some e')),
               (False, Console_error (ascii ''Failed to preload model:'') (Original e')),
               (False, Console_error (ascii ''Background removal failed:'') (Original e'))]\<rparr>)"
    by (simp add: processImageBackgroundRemoval_def processImage_catch_def loadModel_def
        emit_def Let_def or_default_Some)
next
  assume "isModelLoaded t \<and> removeBackground env f (or_default copt) (lib t) = (q, y)"
  then show "processImageBackgroundRemoval env f copt t =
        ((case q of Inl e \<Rightarrow> Inl (New_Error failedMessage) | Inr blob \<Rightarrow> Inr blob),
         t\<lparr>lib := y,
           trace := trace t @
             [(True, Call_processImage f (or_default copt)),
              (True, RemoveBackground f (or_default copt) q)] @
             (case q of
                Inl e \<Rightarrow>
                  [(True, Console_error (ascii ''Background removal failed:'') (Original e))]
              | Inr blob \<Rightarrow> [])\<rparr>)"
    by (cases q)
       (simp_all add: processImageBackgroundRemoval_def processImage_catch_def emit_def Let_def)
qed

theorem processImage_loads_once_before_inference_witness:
  "\<not> isModelLoaded blank \<and> isModelLoaded loaded_once
   \<and> preload isnet_fails (preload_args (or_default None)) (lib blank)
       = (None, [Called_preload (Isnet_fp16, False, Cpu)])
   \<and> removeBackground isnet_fails sampleFile (or_default None)
        [Called_preload (Isnet_fp16, False, Cpu)]
       = (Inr 0, [Called_preload (Isnet_fp16, False, Cpu),
                  Called_removeBackground sampleFile defaultConfig])
   \<and> preload isnet_fails (preload_args (or_default (Some isnetConfig))) (lib blank)
       = (Some 7, [Called_preload (Isnet, False, Cpu)])
   \<and> removeBackground isnet_fails sampleFile (or_default None) (lib loaded_once)
       = (Inr 0, [Called_preload (Isnet_fp16, False, Cpu),
                  Called_removeBackground sampleFile defaultConfig])
   \<and> processImageBackgroundRemoval isnet_fails sampleFile None blank =
        (Inr 0,
         \<lparr>isModelLoaded = True,
          lib = [Called_preload (Isnet_fp16, False, Cpu),
                 Called_removeBackground sampleFile defaultConfig],
          trace =
            [(False, Call_processImage sampleFile defaultConfig),
             (False, Call_loadModel defaultConfig),
             (False, Preload (Isnet_fp16, False, Cpu) None),
             (True, RemoveBackground sampleFile defaultConfig (Inr 0))]\<rparr>)
   \<and> processImageBackgroundRemoval isnet_fails sampleFile (Some isnetConfig) blank =
        (Inl (New_Error failedMessage),
         \<lparr>isModelLoaded = False,
          lib = [Called_preload (Isnet, False, Cpu)],
          trace =
            [(False, Call_processImage sampleFile isnetConfig),
             (False, Call_loadModel isnetConfig),
             (False, Preload (Isnet, False, Cpu) (Some 7)),
             (False, Console_error (ascii ''Failed to preload model:'') (Original 7)),
             (False, Console_error (ascii ''Background removal failed:'') (Original 7))]\<rparr>)
   \<and> processImageBackgroundRemoval isnet_fails sampleFile None loaded_once =
        (Inr 0,
         \<lparr>isModelLoaded = True,
          lib = [Called_preload (Isnet_fp16, False, Cpu),
                 Called_removeBackground sampleFile defaultConfig],
          trace =
            [(False, Call_loadModel defaultConfig),
             (False, Preload (Isnet_fp16, False, Cpu) None),
             (True, Call_processImage sampleFile defaultConfig),
             (True, RemoveBackground sampleFile defaultConfig (Inr 0))]\<rparr>)"
proof -
  let ?h1 = "[Called_preload (Isnet_fp16, False, Cpu)]"
  let ?h2 = "[Called_preload (Isnet_fp16, False, Cpu),
              Called_removeBackground sampleFile defaultConfig]"
  let ?h3 = "[Called_preload (Isnet, False, Cpu)]"
  have a1: "\<not> isModelLoaded blank"
    by (simp add: recording_defs init_state_def)
  have a2: "preload isnet_fails (preload_args (or_default None)) (lib blank) = (None, ?h1)"
    by (simp add: recording_defs test_defs or_default_def)
  have a3: "removeBackground isnet_fails sampleFile (or_default None) ?h1 = (Inr 0, ?h2)"
    by (simp add: recording_defs or_default_def)
  have b2: "preload isnet_fails (preload_args (or_default (Some isnetConfig))) (lib blank)
      = (Some 7, ?h3)"
    by (simp add: recording_defs test_defs or_default_def)
  have c1: "isModelLoaded loaded_once"
    by (simp add: recording_defs)
  have c2: "removeBackground isnet_fails sampleFile (or_default None) (lib loaded_once)
      = (Inr 0, ?h2)"
    by (simp add: recording_defs or_default_def)
  note t = processImage_loads_once_before_inference
    [of blank isnet_fails None ?h1 sampleFile "Inr 0" ?h2 blank "Some isnetConfig" 7 ?h3
        loaded_once "Inr 0" ?h2]
  from t a1 a2 a3 have r1: "processImageBackgroundRemoval isnet_fails sampleFile None blank =
        (Inr 0,
         \<lparr>isModelLoaded = True, lib = ?h2,
          trace =
            [(False, Call_processImage sampleFile defaultConfig),
             (False, Call_loadModel defaultConfig),
             (False, Preload (Isnet_fp16, False, Cpu) None),
             (True, RemoveBackground sampleFile defaultConfig (Inr 0))]\<rparr>)"
    by (simp add: recording_defs test_defs or_default_def)
  from t a1 b2 have r2:
    "processImageBackgroundRemoval isnet_fails sampleFile (Some isnetConfig) blank =
        (Inl (New_Error failedMessage),
         \<lparr>isModelLoaded = False, lib = ?h3,
          trace =
            [(False, Call_processImage sampleFile isnetConfig),
             (False, Call_loadModel isnetConfig),
             (False, Preload (Isnet, False, Cpu) (Some 7)),
             (False, Console_error (ascii ''Failed to preload model:'') (Original 7)),
             (False, Console_error (ascii ''Background removal failed:'') (Original 7))]\<rparr>)"
    by (simp add: recording_defs test_defs or_default_def)
  from t c1 c2 have r3:
    "processImageBackgroundRemoval isnet_fails sampleFile None loaded_once =
        (Inr 0,
         \<lparr>isModelLoaded = True, lib = ?h2,
          trace =
            [(False, Call_loadModel defaultConfig),
             (False, Preload (Isnet_fp16, False, Cpu) None),
             (True, Call_processImage sampleFile defaultConfig),
             (True, RemoveBackground sampleFile defaultConfig (Inr 0))]\<rparr>)"
    by (simp add: recording_defs test_defs or_default_def)
  from a1 a2 a3 b2 c1 c2 r1 r2 r3 show ?thesis
    by blast
qed

text \<open>
  C6. When \<open>processImageBackgroundRemoval\<close> finds the flag false and the \<open>preload\<close> of its
  own \<open>loadModel\<close> rejects with \<open>e\<close>, the value thrown is the error with the fixed message,
  not \<open>e\<close>; \<open>removeBackground\<close> is not called, and \<open>e\<close> is written to the log by both
  \<open>catch\<close> blocks.
\<close>

theorem lazy_load_failure_generic_error:
  assumes "\<not> isModelLoaded s"
    and "preload env (preload_args (or_default copt)) (lib s) = (Some e, x)"
  shows "processImageBackgroundRemoval env f copt s =
           (Inl (New_Error failedMessage),
            s\<lparr>lib := x,
              trace := trace s @
                [(False, Call_processImage f (or_default copt)),
                 (False, Call_loadModel (or_default copt)),
                 (False, Preload (preload_args (or_default copt)) (Some e)),
                 (False, Console_error (ascii ''Failed to preload model:'') (Original e)),
                 (False, Console_error (ascii ''Background removal failed:'') (Original e))]\<rparr>)
         \<and> New_Error failedMessage \<noteq> Original e"
  using assms
  by (simp add: processImageBackgroundRemoval_def processImage_catch_def loadModel_def
      emit_def Let_def or_default_def)

theorem lazy_load_failure_generic_error_witness:
  "\<not> isModelLoaded fresh
   \<and> preload (test_env (Some 7) (Inr 0)) (preload_args (or_default None)) (lib fresh)
       = (Some 7, ())
   \<and> processImageBackgroundRemoval (test_env (Some 7) (Inr 0)) sampleFile None fresh =
       (Inl (New_Error failedMessage),
        \<lparr>isModelLoaded = False, lib = (),
         trace = [(False, Call_processImage sampleFile defaultConfig),
                  (False, Call_loadModel defaultConfig),
                  (False, Preload (Isnet_fp16, False, Cpu) (Some 7)),
                  (False, Console_error (ascii ''Failed to preload model:'') (Original 7)),
                  (False, Console_error (ascii ''Background removal failed:'') (Original 7))]\<rparr>)"
proof -
  have h1: "\<not> isModelLoaded fresh"
    by (simp add: test_defs)
  have h2: "preload (test_env (Some 7) (Inr 0)) (preload_args (or_default None)) (lib fresh)
              = (Some 7, ())"
    by (simp add: test_defs)
  from lazy_load_failure_generic_error [OF h1 h2, of sampleFile] h1 h2 show ?thesis
    by (simp add: test_defs or_default_def)
qed

section \<open>Properties of a session\<close>

lemmas app_defs =
  initModel_def handleConfigChange_def handleFileSelect_def handleFileSelect_catch_def
  init_app_def mounted_def startsWith_def ascii_def

lemmas halves_defs =
  loadModel_start_def loadModel_settle_def initModel_start_def initModel_settle_def
  initModel_finish_def handleConfigChange_start_def handleConfigChange_settle_def
  handleConfigChange_finish_def

lemma mounted_eval:
  "mounted =
     \<lparr>isProcessing = False, processedImage = None, error = None, modelLoaded = True,
      loadingProgress = 100, config = defaultConfig, module = warm\<rparr>"
  by (simp add: app_defs module_defs test_defs)

text \<open>A handler that awaits \<open>loadModel\<close> is its two halves run one right after the other.\<close>

lemma initModel_halves:
  "initModel env a =
     (case initModel_start env a of
        (None, a') \<Rightarrow> a'
      | (Some p, a') \<Rightarrow> initModel_settle p a')"
  by (simp add: initModel_def loadModel_halves initModel_start_def initModel_settle_def
      initModel_finish_def Let_def split: prod.splits option.splits sum.splits)

lemma handleConfigChange_halves:
  "handleConfigChange env newConfig a =
     (case handleConfigChange_start env newConfig a of
        (None, a') \<Rightarrow> a'
      | (Some p, a') \<Rightarrow> handleConfigChange_settle p a')"
  by (simp add: handleConfigChange_def loadModel_halves handleConfigChange_start_def
      handleConfigChange_settle_def handleConfigChange_finish_def Let_def
      split: prod.splits option.splits sum.splits)

text \<open>
  When nothing else runs while it awaits, \<open>handleConfigChange\<close> keeps the invariant: it
  resets the flag, and the flag is set again only by the load of the new configuration.
\<close>

lemma loadModel_consistent:
  "\<not> isModelLoaded s \<Longrightarrow> loadModel env (Some c) s = (r, s') \<Longrightarrow> ready_means_loaded c s'"
  by (auto simp: loadModel_def emit_def Let_def ready_means_loaded_def preloads_append loaded_def
      or_default_def split: prod.splits option.splits)

lemma emit_consistent:
  "ready_means_loaded c (emit (Console_error l e) s) = ready_means_loaded c s"
  by (simp add: ready_means_loaded_def emit_def loaded_append)

lemma handleConfigChange_consistent:
  assumes "ready_means_loaded (config a) (module a)"
  shows "ready_means_loaded (config (handleConfigChange env c a))
           (module (handleConfigChange env c a))"
proof (cases "model c \<noteq> model (config a) \<or> device c \<noteq> device (config a)
              \<or> debug c \<noteq> debug (config a)")
  case True
  have nr: "\<not> isModelLoaded (resetModel (module a))"
    by (simp add: resetModel_def)
  obtain r s' where l: "loadModel env (Some c) (resetModel (module a)) = (r, s')"
    by (cases "loadModel env (Some c) (resetModel (module a))")
  from loadModel_consistent [OF nr l] l True show ?thesis
    by (cases r) (simp_all add: handleConfigChange_def Let_def emit_consistent)
next
  case False
  with assms show ?thesis
    by (simp add: handleConfigChange_def Let_def ready_means_loaded_def preload_args_def)
qed

lemma reset_before_load:
  "model c \<noteq> model (config a) \<or> device c \<noteq> device (config a) \<or> debug c \<noteq> debug (config a) \<Longrightarrow>
   take 2 (added (module a) (module (handleConfigChange env c a)))
     = [(isModelLoaded (module a), Call_resetModel), (False, Call_loadModel c)]"
  by (simp add: handleConfigChange_def loadModel_def resetModel_def emit_def Let_def added_def
      or_default_def split: prod.splits option.splits)

text \<open>
  C9. When \<open>handleConfigChange\<close> receives a configuration whose model, device and debug
  are those of the current one, it stores the configuration and does nothing else: no
  \<open>resetModel\<close>, no \<open>loadModel\<close>, the flag and the loaded model are as before. Every
  change made through \<open>updateOutputConfig\<close> of the settings panel is of this kind.
\<close>

theorem output_change_keeps_model:
  "(model newConfig = model (config a) \<and> device newConfig = device (config a)
      \<and> debug newConfig = debug (config a) \<longrightarrow>
      handleConfigChange env newConfig a = a\<lparr>config := newConfig\<rparr>
      \<and> added (module a) (module (handleConfigChange env newConfig a)) = []
      \<and> isModelReady (module (handleConfigChange env newConfig a)) = isModelReady (module a)
      \<and> loaded (trace (module (handleConfigChange env newConfig a))) = loaded (trace (module a)))
   \<and> updateOutputConfig (\<lambda>c. handleConfigChange env c a) (config a) updates
       = a\<lparr>config := (config a)
            \<lparr>output :=
               \<lparr>format = spread (format (output (config a))) (upd_format updates),
                quality = spread (quality (output (config a))) (upd_quality updates),
                type = spread (type (output (config a))) (upd_type updates)\<rparr>\<rparr>\<rparr>"
  by (simp add: handleConfigChange_def updateOutputConfig_def Let_def added_def)

theorem output_change_keeps_model_witness:
  "model jpegConfig = model (config mounted) \<and> device jpegConfig = device (config mounted)
   \<and> debug jpegConfig = debug (config mounted)
   \<and> isModelReady (module mounted)
   \<and> handleConfigChange always_ok jpegConfig mounted = mounted\<lparr>config := jpegConfig\<rparr>
   \<and> added (module mounted) (module (handleConfigChange always_ok jpegConfig mounted)) = []
   \<and> isModelReady (module (handleConfigChange always_ok jpegConfig mounted))
       = isModelReady (module mounted)
   \<and> updateOutputConfig (\<lambda>c. handleConfigChange always_ok c mounted) (config mounted)
        (OutputUpdates (Some Image_jpeg) (Some (1 / 2)) (Some Mask))
       = mounted\<lparr>config := jpegConfig\<rparr>"
proof -
  have h: "model jpegConfig = model (config mounted) \<and> device jpegConfig = device (config mounted)
      \<and> debug jpegConfig = debug (config mounted)"
    by (simp add: mounted_eval) (simp add: jpegConfig_def defaultConfig_def)
  have r: "isModelReady (module mounted)"
    by (simp add: mounted_eval isModelReady_def warm_def)
  have j: "(config mounted)
            \<lparr>output :=
               \<lparr>format = spread (format (output (config mounted)))
                   (upd_format (OutputUpdates (Some Image_jpeg) (Some (1 / 2)) (Some Mask))),
                quality = spread (quality (output (config mounted)))
                   (upd_quality (OutputUpdates (Some Image_jpeg) (Some (1 / 2)) (Some Mask))),
                type = spread (type (output (config mounted)))
                   (upd_type (OutputUpdates (Some Image_jpeg) (Some (1 / 2)) (Some Mask)))\<rparr>\<rparr>
           = jpegConfig"
    by (simp add: mounted_eval) (simp add: jpegConfig_def defaultConfig_def spread_def)
  from output_change_keeps_model
    [of jpegConfig mounted always_ok "OutputUpdates (Some Image_jpeg) (Some (1 / 2)) (Some Mask)"]
    h r
  show ?thesis
    unfolding j by blast
qed

text \<open>
  C1. The flag is never to be true unless a load for the current configuration has
  completed, and a change of model, device or debug resets the flag before the new load
  begins. \<open>handleConfigChange\<close> does reset before it loads, but the load started by the
  mount effect may still be pending then, and when that one settles it sets the flag. In
  the session above, once the first promise has settled \<open>isModelReady\<close> answers true, the
  current configuration has model \<open>isnet\<close>, and the only preload that has resolved is the
  one of \<open>isnet_fp16\<close>. The preload of \<open>isnet\<close> then rejects and the flag stays true: the
  interaction layer shows the load as failed, and a file selected next passes the
  readiness check and is processed by \<open>removeBackground\<close> with the configuration whose
  model was never loaded.
\<close>

theorem model_change_during_pending_load:
  "fst overlap_mount_started = Some (Pending (Isnet_fp16, False, Cpu) None)
   \<and> fst overlap_change_started = Some (Pending (Isnet, False, Cpu) (Some 7))
   \<and> isModelReady (module (snd overlap_change_started)) = False
   \<and> isModelReady (module overlap_mount_settled) = True
   \<and> config overlap_mount_settled = isnetConfig
   \<and> preloads (trace (module overlap_mount_settled)) = [((Isnet_fp16, False, Cpu), None)]
   \<and> isModelReady (module overlap_change_settled) = True
   \<and> config overlap_change_settled = isnetConfig
   \<and> modelLoaded overlap_change_settled = False
   \<and> error overlap_change_settled = Some reloadFailedMessage
   \<and> preloads (trace (module overlap_change_settled))
       = [((Isnet_fp16, False, Cpu), None), ((Isnet, False, Cpu), Some 7)]
   \<and> loaded (trace (module overlap_change_settled)) = None
   \<and> lib (module overlap_file_selected)
       = [Called_preload (Isnet_fp16, False, Cpu), Called_preload (Isnet, False, Cpu),
          Called_createObjectURL, Called_removeBackground sampleFile isnetConfig,
          Called_createObjectURL]
   \<and> error overlap_file_selected = None"
proof -
  have m: "overlap_mount_started =
      (Some (Pending (Isnet_fp16, False, Cpu) None),
       \<lparr>isProcessing = False, processedImage = None, error = None, modelLoaded = False,
        loadingProgress = 20, config = defaultConfig,
        module = \<lparr>isModelLoaded = False, lib = [Called_preload (Isnet_fp16, False, Cpu)],
                  trace = [(False, Call_loadModel defaultConfig)]\<rparr>\<rparr>)"
    by (simp add: overlap_mount_started_def halves_defs recording_defs init_app_def
        init_state_def emit_def or_default_def Let_def defaultConfig_def preload_args_def)
  have c: "overlap_change_started =
      (Some (Pending (Isnet, False, Cpu) (Some 7)),
       \<lparr>isProcessing = False, processedImage = None, error = None, modelLoaded = False,
        loadingProgress = 20, config = isnetConfig,
        module = \<lparr>isModelLoaded = False,
                  lib = [Called_preload (Isnet_fp16, False, Cpu),
                         Called_preload (Isnet, False, Cpu)],
                  trace = [(False, Call_loadModel defaultConfig), (False, Call_resetModel),
                           (False, Call_loadModel isnetConfig)]\<rparr>\<rparr>)"
    unfolding overlap_change_started_def m
    by (simp add: halves_defs recording_defs resetModel_def emit_def or_default_def Let_def
        isnetConfig_def defaultConfig_def preload_args_def)
  have ms: "overlap_mount_settled =
       \<lparr>isProcessing = False, processedImage = None, error = None, modelLoaded = True,
        loadingProgress = 100, config = isnetConfig,
        module = \<lparr>isModelLoaded = True,
                  lib = [Called_preload (Isnet_fp16, False, Cpu),
                         Called_preload (Isnet, False, Cpu)],
                  trace = [(False, Call_loadModel defaultConfig), (False, Call_resetModel),
                           (False, Call_loadModel isnetConfig),
                           (False, Preload (Isnet_fp16, False, Cpu) None)]\<rparr>\<rparr>"
    unfolding overlap_mount_settled_def c
    by (simp add: halves_defs emit_def)
  have cs: "overlap_change_settled =
       \<lparr>isProcessing = False, processedImage = None, error = Some reloadFailedMessage,
        modelLoaded = False, loadingProgress = 100, config = isnetConfig,
        module = \<lparr>isModelLoaded = True,
                  lib = [Called_preload (Isnet_fp16, False, Cpu),
                         Called_preload (Isnet, False, Cpu)],
                  trace = [(False, Call_loadModel defaultConfig), (False, Call_resetModel),
                           (False, Call_loadModel isnetConfig),
                           (False, Preload (Isnet_fp16, False, Cpu) None),
                           (True, Preload (Isnet, False, Cpu) (Some 7)),
                           (True, Console_error (ascii ''Failed to preload model:'')
                                    (Original 7)),
                           (True, Console_error reloadFailedLabel (Original 7))]\<rparr>\<rparr>"
    unfolding overlap_change_settled_def ms
    by (simp add: halves_defs emit_def)
  have fs: "lib (module overlap_file_selected)
       = [Called_preload (Isnet_fp16, False, Cpu), Called_preload (Isnet, False, Cpu),
          Called_createObjectURL, Called_removeBackground sampleFile isnetConfig,
          Called_createObjectURL]
       \<and> error overlap_file_selected = None"
    unfolding overlap_file_selected_def cs
    by (simp add: handleFileSelect_def handleFileSelect_catch_def startsWith_def ascii_def
        sampleFile_def isModelReady_def processImageBackgroundRemoval_def emit_def
        or_default_def Let_def recording_defs)
  show ?thesis
    unfolding m c ms cs using fs
    by (simp add: isModelReady_def loaded_def)
qed

end
